theory Spec2Isabelle
  imports Complex_Main "HOL-Library.Word"
begin

unbundle bit_operations_syntax

section \<open>JWT helpers (package helpers, jwt.go)\<close>

text \<open>
  An \<open>http.Header\<close> maps a canonical key to the list of its values; \<open>Header.Get\<close>
  returns the first value of the key and the empty string when the key is absent.
\<close>

type_synonym header = "string \<rightharpoonup> string list"

definition Get :: "header \<Rightarrow> string \<Rightarrow> string" where
  "Get h key = (case h key of None \<Rightarrow> '''' | Some [] \<Rightarrow> '''' | Some (v # _) \<Rightarrow> v)"

text \<open>
  \<open>ExtractJWTFromHeader\<close>: \<open>l := len("Bearer")\<close>; the slices \<open>authHeader[:l]\<close> and
  \<open>authHeader[l+1:]\<close> are only evaluated when \<open>len(authHeader) > l+1\<close>, where
  they are \<open>take l\<close> and \<open>drop (l + 1)\<close>. Go strings are byte sequences, as
  \<open>string\<close> is here.
\<close>

definition ExtractJWTFromHeader :: "header \<Rightarrow> string" where
  "ExtractJWTFromHeader hdr =
     (let authHeader = Get hdr ''Authorization'';
          l = length ''Bearer''
      in if length authHeader > l + 1 \<and> take l authHeader = ''Bearer''
         then drop (l + 1) authHeader
         else '''')"

text \<open>
  The error value of \<open>jwt.ParseWithClaims\<close>: a \<open>*jwt.ValidationError\<close> with its
  \<open>Errors\<close> bit field (a \<open>uint32\<close>), or an error of any other dynamic type. The Go
  \<open>error\<close> interface value \<open>nil\<close> is \<open>None\<close>.
\<close>

datatype go_error = ValidationError "32 word" | OtherError string

record token =
  Valid :: bool

text \<open>
  The bit masks \<open>jwt.ValidationErrorMalformed\<close>, \<open>jwt.ValidationErrorExpired\<close> and
  \<open>jwt.ValidationErrorNotValidYet\<close> belong to the JWT library; they are parameters.
\<close>

record jwt_masks =
  ValidationErrorMalformed :: "32 word"
  ValidationErrorExpired :: "32 word"
  ValidationErrorNotValidYet :: "32 word"

text \<open>
  \<open>ExtractUserInfoFromJWT\<close>. \<open>ParseWithClaims\<close> is the library call, a parameter
  from the token string to the pair \<open>(token, err)\<close> (the library hands back a non-nil
  token whenever \<open>err\<close> is nil). The result is the returned \<open>error\<close>: \<open>None\<close> for
  nil, \<open>Some msg\<close> for \<open>errors.New(msg)\<close>. The type assertion
  \<open>err.(*jwt.ValidationError)\<close> succeeds exactly on \<open>Some (ValidationError _)\<close>.
\<close>

definition ExtractUserInfoFromJWT ::
  "jwt_masks \<Rightarrow> (string \<Rightarrow> token \<times> go_error option) \<Rightarrow> header \<Rightarrow> string option" where
  "ExtractUserInfoFromJWT jwt ParseWithClaims hdr =
     (let tokenString = ExtractJWTFromHeader hdr;
          (token, err) = ParseWithClaims tokenString
      in if err \<noteq> None then Some ''invalid user token''
         else if Valid token then None
         else (case err of
                 Some (ValidationError ve) \<Rightarrow>
                   if ve AND ValidationErrorMalformed jwt \<noteq> 0 then Some ''invalid user token''
                   else if ve AND (ValidationErrorExpired jwt OR ValidationErrorNotValidYet jwt) \<noteq> 0
                     then Some ''token is expired''
                   else Some ''invalid user token''
               | _ \<Rightarrow> Some ''invalid user token''))"

section \<open>Values, events and effects of the async package (async.go)\<close>

text \<open>
  A Go \<open>interface{}\<close> value as it reaches \<open>panic\<close> and is handed back by
  \<open>recover()\<close>: the nil interface, an \<open>error\<close>, a string, or the value
  \<open>regexp.MustCompile\<close> panics with for a pattern that does not parse.
\<close>

datatype any = NilValue | ErrorValue string | StringValue string | RegexpPanic string

text \<open>
  A \<open>context.Context\<close>: \<open>context.TODO()\<close>, or a context derived from another by
  \<open>sentry.SetHubOnContext\<close> or by a span (\<open>span.Context()\<close>).
\<close>

datatype go_context = TODO | WithHub go_context | WithSpan go_context

fun GetHubFromContext :: "go_context \<Rightarrow> bool" where
  "GetHubFromContext TODO = False"
| "GetHubFromContext (WithHub _) = True"
| "GetHubFromContext (WithSpan ctx) = GetHubFromContext ctx"

record request =
  Method :: string
  Path :: string
  Context :: go_context

record echo_context =
  Request :: request

text \<open>
  Every call that leaves the package is an event, in the order of the calls:
  the echo context pool, the logger, the goroutine pool, the Sentry client
  (hub, scope, span), and the call of the unit of work itself.
\<close>

datatype event =
    AcquireContext
  | Reset request
  | Warnf string
  | GoStmt
  | Submit
  | Called
  | CurrentHubClone
  | ScopeSetRequest request
  | SetHubOnContext
  | EcSet string
  | StartSpan string
  | SetSampledFalse
  | SpanFinish
  | EcSetRequest request
  | ReleaseContext
  | ConfigureScopeSetTag string string
  | HubRecover any
  | LoggerError any

text \<open>The calls into the error-reporting client (package sentry).\<close>

fun sentry_call :: "event \<Rightarrow> bool" where
  "sentry_call CurrentHubClone = True"
| "sentry_call (ScopeSetRequest _) = True"
| "sentry_call SetHubOnContext = True"
| "sentry_call (StartSpan _) = True"
| "sentry_call SetSampledFalse = True"
| "sentry_call SpanFinish = True"
| "sentry_call (ConfigureScopeSetTag _ _) = True"
| "sentry_call (HubRecover _) = True"
| "sentry_call _ = False"

text \<open>
  How a function call ends: \<open>None\<close> when it returns, \<open>Some v\<close> while the goroutine
  is panicking with the value \<open>v\<close>. An effect is the events of a call and how it ends.
\<close>

type_synonym outcome = "any option"
type_synonym effect = "event list \<times> outcome"

text \<open>\<open>a; b\<close>: the statements \<open>b\<close> are skipped when \<open>a\<close> panics.\<close>

definition seq :: "effect \<Rightarrow> effect \<Rightarrow> effect" where
  "seq a b = (case a of (es, None) \<Rightarrow> (case b of (es', p) \<Rightarrow> (es @ es', p))
                      | (es, Some v) \<Rightarrow> (es, Some v))"

text \<open>
  \<open>defer d; body\<close>: the deferred call runs when the function ends, whether \<open>body\<close>
  returned or panicked; it sees the panic in progress and decides how the function ends.
\<close>

definition with_defer :: "(outcome \<Rightarrow> effect) \<Rightarrow> effect \<Rightarrow> effect" where
  "with_defer d body = (case body of (es, p) \<Rightarrow> (case d p of (ds, p') \<Rightarrow> (es @ ds, p')))"

text \<open>A deferred call that does not call \<open>recover()\<close>: the panic stays in progress.\<close>

definition deferred :: "event list \<Rightarrow> outcome \<Rightarrow> effect" where
  "deferred es p = (es, p)"

text \<open>The call of a unit of work that returns (\<open>None\<close>) or panics with \<open>v\<close>.\<close>

definition call :: "outcome \<Rightarrow> effect" where
  "call w = ([Called], w)"

section \<open>Configuration and collaborators\<close>

text \<open>
  The configuration read at execution time: \<open>bean.BeanConfig.Sentry.On\<close>,
  \<open>viper.GetFloat64("sentry.tracesSampleRate")\<close> and
  \<open>viper.GetStringSlice("sentry.skipTracesEndpoints")\<close>. The rate is a \<open>float64\<close>
  that is only compared; a finite one is a real number.
\<close>

record config =
  On :: bool
  tracesSampleRate :: real
  skipTracesEndpoints :: "string list"

text \<open>
  Modelled from the spec: \<open>helpers.FloatInRange\<close> is not among the sources; the rate is
  clamped to the range between the two bounds.
\<close>

definition FloatInRange :: "real \<Rightarrow> real \<Rightarrow> real \<Rightarrow> real" where
  "FloatInRange i lo hi = (if i < lo then lo else if i > hi then hi else i)"

text \<open>
  The regular-expression library is a parameter: a pattern that parses gives its
  \<open>MatchString\<close>, one that does not gives \<open>None\<close>, and \<open>regexp.MustCompile\<close> panics.
\<close>

type_synonym regexp = "string \<Rightarrow> (string \<Rightarrow> bool) option"

text \<open>
  Modelled from the spec: package gopool is not among the sources. A pool is a
  bounded executor whose \<open>Submit\<close> either accepts the task (nil; the task then runs on a
  worker goroutine of the pool) or rejects it with an error (the task does not run).
  \<open>gopool.GetPool\<close> returns the pair \<open>(pool, err)\<close>, either of which may be nil.
\<close>

record pool =
  SubmitError :: "string option"

type_synonym registry = "string \<Rightarrow> pool option \<times> string option"

section \<open>recoverPanic\<close>

text \<open>
  \<open>recoverPanic\<close> is always the deferred call itself, so its \<open>recover()\<close> stops a
  panic in progress and returns its value. \<open>recover()\<close> returns nil when the goroutine
  is not panicking, and also for \<open>panic(nil)\<close> under the Go 1.18 toolchain the
  repository builds with (from Go 1.21 on the runtime replaces that value by a non-nil
  \<open>*runtime.PanicNilError\<close>, so there \<open>Some NilValue\<close> does not arise). The
  builtin \<open>recover()\<close> is no event: it calls nothing outside the package.
\<close>

definition recoverPanic :: "config \<Rightarrow> echo_context option \<Rightarrow> outcome \<Rightarrow> effect" where
  "recoverPanic cfg c p =
     (let err = (case p of None \<Rightarrow> NilValue | Some v \<Rightarrow> v)
      in (if err \<noteq> NilValue then
            (if On cfg then
               [CurrentHubClone] @
               (case c of None \<Rightarrow> [] | Some ec \<Rightarrow> [ScopeSetRequest (Request ec)]) @
               [ConfigureScopeSetTag ''goroutine'' ''true'', HubRecover err]
             else []) @
            [LoggerError err]
          else [],
          None))"

section \<open>Execute\<close>

text \<open>
  What one call of \<open>Execute\<close> sets off: the effect on the calling goroutine, and the
  effect of the task on the goroutine it was handed to, if any: a goroutine started by
  the \<open>go\<close> statement, or a worker of the pool that accepted the task. A panic that
  ends the effect of the caller propagates to the caller of \<open>Execute\<close>; one that ends the
  effect of the other goroutine leaves the task unrecovered.
\<close>

datatype thread = Goroutine | Worker

record dispatch =
  caller :: effect
  spawned :: "(thread \<times> effect) option"

text \<open>The default \<open>asyncFunc\<close>: \<open>go func() { defer recoverPanic(nil); task() }()\<close>.\<close>

definition asyncFunc_go :: "config \<Rightarrow> effect \<Rightarrow> dispatch" where
  "asyncFunc_go cfg task =
     \<lparr>caller = ([GoStmt], None),
      spawned = Some (Goroutine, with_defer (recoverPanic cfg None) task)\<rparr>"

text \<open>
  The \<open>asyncFunc\<close> of a pool that was found:
  \<open>defer recoverPanic(nil); err = pool.Submit(task); if err != nil { panic(err) }\<close>.
\<close>

definition asyncFunc_pool :: "config \<Rightarrow> pool \<Rightarrow> effect \<Rightarrow> dispatch" where
  "asyncFunc_pool cfg p task =
     (let err = SubmitError p
      in \<lparr>caller = with_defer (recoverPanic cfg None)
                     (seq ([Submit], None)
                          (case err of None \<Rightarrow> ([], None) | Some e \<Rightarrow> ([], Some (ErrorValue e)))),
          spawned = (case err of None \<Rightarrow> Some (Worker, task) | Some e \<Rightarrow> None)\<rparr>)"

definition before :: "event list \<Rightarrow> dispatch \<Rightarrow> dispatch" where
  "before es d = d\<lparr>caller := (es @ fst (caller d), snd (caller d))\<rparr>"

definition Execute :: "config \<Rightarrow> registry \<Rightarrow> effect \<Rightarrow> string list \<Rightarrow> dispatch" where
  "Execute cfg GetPool fn poolName =
     (case poolName of
        [] \<Rightarrow> asyncFunc_go cfg fn
      | name # _ \<Rightarrow>
          (case GetPool name of
             (Some p, None) \<Rightarrow> asyncFunc_pool cfg p fn
           | _ \<Rightarrow> before [Warnf name] (asyncFunc_go cfg fn)))"

section \<open>ExecuteWithContext\<close>

text \<open>
  The loop over \<open>skipTracesEndpoints\<close>: \<open>Inr True\<close> when it set
  \<open>span.Sampled = sentry.SampledFalse\<close> and left at the \<open>break\<close>, \<open>Inr False\<close> when it
  ran to the end, \<open>Inl v\<close> when \<open>regexp.MustCompile(endpoint)\<close> panicked with \<open>v\<close>.
\<close>

fun skip_loop :: "regexp \<Rightarrow> string list \<Rightarrow> string \<Rightarrow> any + bool" where
  "skip_loop re [] path = Inr False"
| "skip_loop re (endpoint # rest) path =
     (case re endpoint of
        None \<Rightarrow> Inl (RegexpPanic endpoint)
      | Some MatchString \<Rightarrow> if MatchString path then Inr True else skip_loop re rest path)"

text \<open>
  The end of the closure, from line 118 on:
  \<open>defer ec.Echo().ReleaseContext(ec); defer recoverPanic(ec); fn(ec)\<close>.
\<close>

definition run_task :: "config \<Rightarrow> echo_context \<Rightarrow> (echo_context \<Rightarrow> outcome) \<Rightarrow> effect" where
  "run_task cfg ec fn =
     with_defer (deferred [ReleaseContext])
       (with_defer (recoverPanic cfg (Some ec))
          (call (fn ec)))"

text \<open>
  Lines 83 to 91 of the closure: the hub of the request's context, or a clone of the
  current hub when the context carries none, gets the request, is set on the context
  and is stored in \<open>ec\<close> under \<open>bean.SentryHubContextKey\<close>.
\<close>

definition bind_hub :: "echo_context \<Rightarrow> event list" where
  "bind_hub ec =
     (if GetHubFromContext (Context (Request ec)) then [] else [CurrentHubClone]) @
     [ScopeSetRequest (Request ec), SetHubOnContext, EcSet ''sentry'']"

text \<open>The transaction name \<open>fmt.Sprintf("%s %s ASYNC", ec.Request().Method, path)\<close>.\<close>

definition TransactionName :: "request \<Rightarrow> string" where
  "TransactionName r = Method r @ '' '' @ Path r @ '' ASYNC''"

text \<open>
  Line 113: \<open>r := ec.Request().WithContext(span.Context())\<close>, the span's context being
  derived from the context that carries the hub.
\<close>

definition span_request :: "echo_context \<Rightarrow> request" where
  "span_request ec = (Request ec)\<lparr>Context := WithSpan (WithHub (Context (Request ec)))\<rparr>"

text \<open>
  The closure that \<open>ExecuteWithContext\<close> hands to \<open>Execute\<close>. A deferred call runs
  when the closure ends, so \<open>defer span.Finish()\<close> inside the \<open>if\<close> covers everything
  after it, and the calls deferred later run before it. When \<open>regexp.MustCompile\<close>
  panics in the loop, no call has been deferred yet.
\<close>

definition closure ::
  "config \<Rightarrow> regexp \<Rightarrow> echo_context \<Rightarrow> (echo_context \<Rightarrow> outcome) \<Rightarrow> effect" where
  "closure cfg re ec fn =
     (if On cfg then
        seq (bind_hub ec, None)
          (if FloatInRange (tracesSampleRate cfg) 0 1 > 0 then
             (let path = Path (Request ec)
              in seq ([StartSpan (TransactionName (Request ec))], None)
                   (case skip_loop re (skipTracesEndpoints cfg) path of
                      Inl v \<Rightarrow> ([], Some v)
                    | Inr skip \<Rightarrow>
                        seq (if skip then [SetSampledFalse] else [], None)
                          (with_defer (deferred [SpanFinish])
                             (seq ([EcSetRequest (span_request ec)], None)
                                  (run_task cfg (ec\<lparr>Request := span_request ec\<rparr>) fn)))))
           else run_task cfg ec fn)
      else run_task cfg ec fn)"

definition ExecuteWithContext ::
  "config \<Rightarrow> regexp \<Rightarrow> registry \<Rightarrow> (echo_context \<Rightarrow> outcome) \<Rightarrow> echo_context \<Rightarrow>
   string list \<Rightarrow> dispatch" where
  "ExecuteWithContext cfg re GetPool fn c poolName =
     (let r = (Request c)\<lparr>Context := TODO\<rparr>;
          ec = \<lparr>Request = r\<rparr>
      in before [AcquireContext, Reset r] (Execute cfg GetPool (closure cfg re ec fn) poolName))"

text \<open>
  All events of one call in order: those of the calling goroutine, then those of the
  goroutine the task was handed to (when there is one, the caller's last event is the
  \<open>go\<close> statement or the accepted \<open>Submit\<close> that handed it over).
\<close>

definition events :: "dispatch \<Rightarrow> event list" where
  "events d = fst (caller d) @ (case spawned d of None \<Rightarrow> [] | Some (t, (es, p)) \<Rightarrow> es)"

section \<open>Basic facts\<close>

lemma FloatInRange_pos: "0 < FloatInRange x 0 1 \<longleftrightarrow> 0 < x"
  by (simp add: FloatInRange_def)

lemma recoverPanic_None: "recoverPanic cfg c None = ([], None)"
  by (simp add: recoverPanic_def)

lemma snd_recoverPanic: "snd (recoverPanic cfg c p) = None"
  by (simp add: recoverPanic_def Let_def)

lemma recoverPanic_Some:
  "v \<noteq> NilValue \<Longrightarrow>
   recoverPanic cfg c (Some v) =
     ((if On cfg then
         [CurrentHubClone] @
         (case c of None \<Rightarrow> [] | Some ec \<Rightarrow> [ScopeSetRequest (Request ec)]) @
         [ConfigureScopeSetTag ''goroutine'' ''true'', HubRecover v]
       else []) @ [LoggerError v], None)"
  by (simp add: recoverPanic_def)

lemma with_defer_recoverPanic:
  "with_defer (recoverPanic cfg c) (es, p) = (es @ fst (recoverPanic cfg c p), None)"
  by (simp add: with_defer_def recoverPanic_def Let_def)

lemma ExtractJWTFromHeader_eq:
  "ExtractJWTFromHeader hdr =
     (if 8 \<le> length (Get hdr ''Authorization'') \<and> take 6 (Get hdr ''Authorization'') = ''Bearer''
      then drop 7 (Get hdr ''Authorization'') else '''')"
proof -
  have l: "length ''Bearer'' = (6::nat)" by simp
  have "7 < n \<longleftrightarrow> 8 \<le> n" for n :: nat by arith
  then show ?thesis
    unfolding ExtractJWTFromHeader_def Let_def l by simp
qed

lemma run_task_eq:
  "run_task cfg ec fn =
     ([Called] @ fst (recoverPanic cfg (Some ec) (fn ec)) @ [ReleaseContext], None)"
  by (simp add: run_task_def call_def with_defer_def deferred_def recoverPanic_def Let_def)

section \<open>The closure of ExecuteWithContext, case by case\<close>

lemma seq_None: "seq (es, None) (es', p) = (es @ es', p)"
  by (simp add: seq_def)

lemma skip_loop_valid:
  "\<forall>p\<in>set ps. re p \<noteq> None \<Longrightarrow>
   skip_loop re ps path = Inr (\<exists>p\<in>set ps. \<exists>m. re p = Some m \<and> m path)"
  by (induction ps) (auto split: option.splits)

lemma skip_loop_first_match:
  "\<forall>p\<in>set xs. \<exists>m. re p = Some m \<and> \<not> m path \<Longrightarrow> re p = Some m \<Longrightarrow> m path \<Longrightarrow>
   skip_loop re (xs @ p # ys) path = Inr True"
  by (induction xs) auto

lemma ec_update: "(ec :: echo_context)\<lparr>Request := r\<rparr> = \<lparr>Request = r\<rparr>"
  by (cases ec) simp

lemma closure_off: "\<not> On cfg \<Longrightarrow> closure cfg re ec fn = run_task cfg ec fn"
  by (simp add: closure_def)

lemma closure_no_span:
  "On cfg \<Longrightarrow> \<not> 0 < tracesSampleRate cfg \<Longrightarrow>
   closure cfg re ec fn = (bind_hub ec @ fst (run_task cfg ec fn), None)"
  by (simp add: closure_def FloatInRange_pos run_task_eq seq_None)

lemma closure_span_panic:
  "On cfg \<Longrightarrow> 0 < tracesSampleRate cfg \<Longrightarrow>
   skip_loop re (skipTracesEndpoints cfg) (Path (Request ec)) = Inl v \<Longrightarrow>
   closure cfg re ec fn = (bind_hub ec @ [StartSpan (TransactionName (Request ec))], Some v)"
  by (simp add: closure_def FloatInRange_pos seq_def)

lemma closure_span:
  "On cfg \<Longrightarrow> 0 < tracesSampleRate cfg \<Longrightarrow>
   skip_loop re (skipTracesEndpoints cfg) (Path (Request ec)) = Inr skip \<Longrightarrow>
   closure cfg re ec fn =
     (bind_hub ec @ [StartSpan (TransactionName (Request ec))] @
      (if skip then [SetSampledFalse] else []) @ [EcSetRequest (span_request ec)] @
      fst (run_task cfg \<lparr>Request = span_request ec\<rparr> fn) @ [SpanFinish], None)"
  by (simp add: closure_def FloatInRange_pos seq_def run_task_eq with_defer_def deferred_def
      ec_update)

lemma Called_notin_bind_hub: "Called \<notin> set (bind_hub ec)"
  by (simp add: bind_hub_def)

lemma closure_reached:
  assumes "Called \<in> set (fst (closure cfg re ec fn))"
  shows "\<exists>pre ec'. closure cfg re ec fn =
            (pre @ [Called] @ fst (recoverPanic cfg (Some ec') (fn ec')) @ [ReleaseContext] @
             (if On cfg \<and> 0 < tracesSampleRate cfg then [SpanFinish] else []), None)
          \<and> Request ec' = (if On cfg \<and> 0 < tracesSampleRate cfg then span_request ec else Request ec)
          \<and> pre = (if On cfg then bind_hub ec else []) @
                  (if On cfg \<and> 0 < tracesSampleRate cfg
                   then [StartSpan (TransactionName (Request ec))] @
                        (if skip_loop re (skipTracesEndpoints cfg) (Path (Request ec)) = Inr True
                         then [SetSampledFalse] else []) @ [EcSetRequest (span_request ec)]
                   else [])"
proof (cases "On cfg")
  case False
  then show ?thesis by (auto simp: closure_off run_task_eq)
next
  case on: True
  show ?thesis
  proof (cases "0 < tracesSampleRate cfg")
    case False
    with on show ?thesis by (auto simp: closure_no_span run_task_eq)
  next
    case rate: True
    show ?thesis
    proof (cases "skip_loop re (skipTracesEndpoints cfg) (Path (Request ec))")
      case (Inl v)
      with on rate assms show ?thesis
        by (simp add: closure_span_panic Called_notin_bind_hub)
    next
      case (Inr skip)
      with on rate show ?thesis
        by (intro exI [of _ "\<lparr>Request = span_request ec\<rparr>"] exI) (auto simp: closure_span run_task_eq)
    qed
  qed
qed

lemma ExecuteWithContext_spawned:
  assumes "spawned (ExecuteWithContext cfg re GetPool fn c poolName) = Some (t, eff)"
  shows "(t = Goroutine \<and>
          eff = with_defer (recoverPanic cfg None)
                  (closure cfg re \<lparr>Request = (Request c)\<lparr>Context := TODO\<rparr>\<rparr> fn))
       \<or> (t = Worker \<and> eff = closure cfg re \<lparr>Request = (Request c)\<lparr>Context := TODO\<rparr>\<rparr> fn)"
  using assms
  by (auto simp: ExecuteWithContext_def Execute_def before_def asyncFunc_go_def asyncFunc_pool_def
      Let_def split: list.splits prod.splits option.splits)

lemma recoverPanic_events:
  "e \<in> set (fst (recoverPanic cfg c p)) \<Longrightarrow>
   e = CurrentHubClone \<or> (\<exists>r. e = ScopeSetRequest r) \<or>
   e = ConfigureScopeSetTag ''goroutine'' ''true'' \<or> (\<exists>v. e = HubRecover v) \<or> (\<exists>v. e = LoggerError v)"
  by (auto simp: recoverPanic_def Let_def split: if_splits option.splits)

lemma Called_notin_recoverPanic: "Called \<notin> set (fst (recoverPanic cfg c p))"
  by (auto dest: recoverPanic_events)

lemma ReleaseContext_notin_recoverPanic: "ReleaseContext \<notin> set (fst (recoverPanic cfg c p))"
  by (auto dest: recoverPanic_events)

lemma SpanFinish_notin_recoverPanic: "SpanFinish \<notin> set (fst (recoverPanic cfg c p))"
  by (auto dest: recoverPanic_events)

lemma StartSpan_notin_recoverPanic: "StartSpan n \<notin> set (fst (recoverPanic cfg c p))"
  by (auto dest: recoverPanic_events)

lemma spawned_reached:
  assumes sp: "spawned (ExecuteWithContext cfg re GetPool fn c poolName) = Some (t, (es, p))"
    and called: "Called \<in> set es"
  shows "\<exists>pre ec'. es = pre @ [Called] @ fst (recoverPanic cfg (Some ec') (fn ec')) @ [ReleaseContext] @
                        (if On cfg \<and> 0 < tracesSampleRate cfg then [SpanFinish] else [])
          \<and> p = None
          \<and> Request ec' = (if On cfg \<and> 0 < tracesSampleRate cfg
                           then span_request \<lparr>Request = (Request c)\<lparr>Context := TODO\<rparr>\<rparr>
                           else (Request c)\<lparr>Context := TODO\<rparr>)
          \<and> pre = (if On cfg then bind_hub \<lparr>Request = (Request c)\<lparr>Context := TODO\<rparr>\<rparr> else []) @
                  (if On cfg \<and> 0 < tracesSampleRate cfg
                   then [StartSpan (TransactionName (Request c))] @
                        (if skip_loop re (skipTracesEndpoints cfg) (Path (Request c)) = Inr True
                         then [SetSampledFalse] else []) @
                        [EcSetRequest (span_request \<lparr>Request = (Request c)\<lparr>Context := TODO\<rparr>\<rparr>)]
                   else [])"
proof -
  let ?ec = "\<lparr>Request = (Request c)\<lparr>Context := TODO\<rparr>\<rparr>"
  let ?cl = "closure cfg re ?ec fn"
  from ExecuteWithContext_spawned [OF sp]
  have eff: "(es, p) = with_defer (recoverPanic cfg None) ?cl \<or> (es, p) = ?cl"
    by auto
  have "Called \<in> set (fst ?cl)"
  proof (cases "(es, p) = ?cl")
    case True
    with called show ?thesis by (metis fst_conv)
  next
    case False
    with eff have "(es, p) = with_defer (recoverPanic cfg None) ?cl" by simp
    then have "es = fst ?cl @ fst (recoverPanic cfg None (snd ?cl))"
      by (cases ?cl) (simp add: with_defer_recoverPanic)
    with called show ?thesis
      by (auto simp: Called_notin_recoverPanic)
  qed
  from closure_reached [OF this] obtain pre ec' where
    cl: "?cl = (pre @ [Called] @ fst (recoverPanic cfg (Some ec') (fn ec')) @ [ReleaseContext] @
             (if On cfg \<and> 0 < tracesSampleRate cfg then [SpanFinish] else []), None)"
    and ec': "Request ec' = (if On cfg \<and> 0 < tracesSampleRate cfg then span_request ?ec else Request ?ec)"
    and pre: "pre = (if On cfg then bind_hub ?ec else []) @
                  (if On cfg \<and> 0 < tracesSampleRate cfg
                   then [StartSpan (TransactionName (Request ?ec))] @
                        (if skip_loop re (skipTracesEndpoints cfg) (Path (Request ?ec)) = Inr True
                         then [SetSampledFalse] else []) @ [EcSetRequest (span_request ?ec)]
                   else [])"
    by blast
  from eff cl have "(es, p) = ?cl"
    by (auto simp: with_defer_recoverPanic recoverPanic_None)
  with cl ec' pre show ?thesis
    by (intro exI [of _ pre] exI [of _ ec']) (simp add: TransactionName_def)
qed

lemma spawned_of_closure_returns:
  assumes "spawned (ExecuteWithContext cfg re GetPool fn c poolName) = Some (t, (es, p))"
    and "closure cfg re \<lparr>Request = (Request c)\<lparr>Context := TODO\<rparr>\<rparr> fn = (es0, None)"
  shows "es = es0 \<and> p = None"
  using ExecuteWithContext_spawned [OF assms(1)] assms(2)
  by (auto simp: with_defer_recoverPanic recoverPanic_None)

lemma spawned_of_closure_panics:
  assumes "spawned (ExecuteWithContext cfg re GetPool fn c poolName) = Some (t, (es, p))"
    and "closure cfg re \<lparr>Request = (Request c)\<lparr>Context := TODO\<rparr>\<rparr> fn = (es0, Some v)"
  shows "(t = Goroutine \<and> es = es0 @ fst (recoverPanic cfg None (Some v)) \<and> p = None)
       \<or> (t = Worker \<and> es = es0 \<and> p = Some v)"
  using ExecuteWithContext_spawned [OF assms(1)] assms(2)
  by (auto simp: with_defer_recoverPanic)

lemma span_started_iff:
  assumes sp: "spawned (ExecuteWithContext cfg re GetPool fn c poolName) = Some (t, (es, p))"
  shows "(\<exists>n. StartSpan n \<in> set es) \<longleftrightarrow> On cfg \<and> 0 < tracesSampleRate cfg"
proof -
  let ?ec = "\<lparr>Request = (Request c)\<lparr>Context := TODO\<rparr>\<rparr>"
  consider (off) "\<not> On cfg" | (norate) "On cfg" "\<not> 0 < tracesSampleRate cfg"
    | (panic) v where "On cfg" "0 < tracesSampleRate cfg"
        "skip_loop re (skipTracesEndpoints cfg) (Path (Request ?ec)) = Inl v"
    | (span) skip where "On cfg" "0 < tracesSampleRate cfg"
        "skip_loop re (skipTracesEndpoints cfg) (Path (Request ?ec)) = Inr skip"
    by (cases "skip_loop re (skipTracesEndpoints cfg) (Path (Request ?ec))") auto
  then show ?thesis
  proof cases
    case off
    from spawned_of_closure_returns [OF sp] off show ?thesis
      by (auto simp: closure_off run_task_eq StartSpan_notin_recoverPanic)
  next
    case norate
    from spawned_of_closure_returns [OF sp] norate show ?thesis
      by (auto simp: closure_no_span run_task_eq StartSpan_notin_recoverPanic bind_hub_def)
  next
    case panic
    from spawned_of_closure_panics [OF sp closure_span_panic [OF panic]] panic(1,2) show ?thesis
      by auto
  next
    case span
    from spawned_of_closure_returns [OF sp closure_span [OF span]] span(1,2) show ?thesis
      by auto
  qed
qed

lemma recoverPanic_off:
  "\<not> On cfg \<Longrightarrow> e \<in> set (fst (recoverPanic cfg c p)) \<Longrightarrow> \<not> sentry_call e"
  by (auto simp: recoverPanic_def Let_def split: if_splits)

lemma closure_off_no_sentry:
  "\<not> On cfg \<Longrightarrow> e \<in> set (fst (closure cfg re ec fn)) \<Longrightarrow> \<not> sentry_call e"
  by (auto simp: closure_off run_task_eq dest: recoverPanic_off)

lemma Execute_caller_returns: "snd (caller (Execute cfg GetPool fn poolName)) = None"
  by (auto simp: Execute_def asyncFunc_go_def asyncFunc_pool_def before_def with_defer_def
      recoverPanic_def seq_def Let_def split: list.splits prod.splits option.splits)

lemma ExecuteWithContext_caller_returns:
  "snd (caller (ExecuteWithContext cfg re GetPool fn c poolName)) = None"
  by (simp add: ExecuteWithContext_def before_def Execute_caller_returns Let_def)

lemma asyncFunc_go_eq:
  "asyncFunc_go cfg fn =
     \<lparr>caller = ([GoStmt], None),
      spawned = Some (Goroutine, (fst fn @ fst (recoverPanic cfg None (snd fn)), None))\<rparr>"
  by (cases fn) (simp add: asyncFunc_go_def with_defer_recoverPanic)

lemma asyncFunc_pool_accept:
  "SubmitError pl = None \<Longrightarrow>
   asyncFunc_pool cfg pl fn = \<lparr>caller = ([Submit], None), spawned = Some (Worker, fn)\<rparr>"
  by (simp add: asyncFunc_pool_def seq_def with_defer_recoverPanic recoverPanic_None)

lemma asyncFunc_pool_reject:
  "SubmitError pl = Some e \<Longrightarrow>
   asyncFunc_pool cfg pl fn =
     \<lparr>caller = ([Submit] @ fst (recoverPanic cfg None (Some (ErrorValue e))), None),
      spawned = None\<rparr>"
  by (simp add: asyncFunc_pool_def seq_def with_defer_recoverPanic)

lemma Execute_disj:
  "Execute cfg GetPool fn poolName = asyncFunc_go cfg fn
   \<or> (\<exists>name. Execute cfg GetPool fn poolName = before [Warnf name] (asyncFunc_go cfg fn))
   \<or> (\<exists>pl. Execute cfg GetPool fn poolName = asyncFunc_pool cfg pl fn)"
  by (auto simp: Execute_def split: list.splits prod.splits option.splits)

lemma Execute_cases:
  obtains (go) "Execute cfg GetPool fn poolName = asyncFunc_go cfg fn"
  | (warn) name where "Execute cfg GetPool fn poolName = before [Warnf name] (asyncFunc_go cfg fn)"
  | (pool) pl where "Execute cfg GetPool fn poolName = asyncFunc_pool cfg pl fn"
  using Execute_disj [of cfg GetPool fn poolName] by blast

lemma Execute_off_no_sentry:
  assumes off: "\<not> On cfg" and fn: "\<And>e. e \<in> set (fst fn) \<Longrightarrow> \<not> sentry_call e"
    and e: "e \<in> set (events (Execute cfg GetPool fn poolName))"
  shows "\<not> sentry_call e"
proof (cases rule: Execute_cases [of cfg GetPool fn poolName])
  case go
  with e show ?thesis
    by (auto simp: asyncFunc_go_eq events_def dest: fn recoverPanic_off [OF off])
next
  case (warn name)
  with e show ?thesis
    by (auto simp: asyncFunc_go_eq events_def before_def dest: fn recoverPanic_off [OF off])
next
  case (pool pl)
  show ?thesis
  proof (cases "SubmitError pl")
    case None
    with pool e fn show ?thesis
      by (cases fn) (auto simp: asyncFunc_pool_accept events_def)
  next
    case (Some err)
    with pool e show ?thesis
      by (auto simp: asyncFunc_pool_reject events_def dest: recoverPanic_off [OF off])
  qed
qed

lemma ExecuteWithContext_off_no_sentry:
  assumes "\<not> On cfg" and "e \<in> set (events (ExecuteWithContext cfg re GetPool fn c poolName))"
  shows "\<not> sentry_call e"
proof -
  let ?cl = "closure cfg re \<lparr>Request = (Request c)\<lparr>Context := TODO\<rparr>\<rparr> fn"
  from assms(2) have "e \<in> {AcquireContext, Reset ((Request c)\<lparr>Context := TODO\<rparr>)}
      \<or> e \<in> set (events (Execute cfg GetPool ?cl poolName))"
    by (auto simp: ExecuteWithContext_def events_def before_def Let_def)
  then show ?thesis
  proof
    assume "e \<in> {AcquireContext, Reset ((Request c)\<lparr>Context := TODO\<rparr>)}"
    then show ?thesis by auto
  next
    assume ex: "e \<in> set (events (Execute cfg GetPool ?cl poolName))"
    show ?thesis
    proof (rule Execute_off_no_sentry [OF assms(1)])
      show "e \<in> set (events (Execute cfg GetPool ?cl poolName))" by (rule ex)
      show "\<And>e'. e' \<in> set (fst ?cl) \<Longrightarrow> \<not> sentry_call e'"
        by (rule closure_off_no_sentry [OF assms(1)])
    qed
  qed
qed

lemmas async_defs =
  ExecuteWithContext_def Execute_def before_def asyncFunc_go_def asyncFunc_pool_def closure_def
  seq_def with_defer_def deferred_def run_task_def call_def recoverPanic_def bind_hub_def
  TransactionName_def span_request_def FloatInRange_def events_def Let_def

section \<open>The JWT helpers\<close>

text \<open>
  C10. \<open>ExtractJWTFromHeader\<close> returns the Authorization header from index 7 on
  whenever the header has at least 8 characters and its first six are \<open>Bearer\<close>; the
  seventh character is skipped, whatever it is; every other header value, and an
  absent header, give the empty string.
\<close>

theorem ExtractJWTFromHeader_bearer:
  "(8 \<le> length (Get hdr ''Authorization'') \<and> take 6 (Get hdr ''Authorization'') = ''Bearer''
      \<longrightarrow> ExtractJWTFromHeader hdr = drop 7 (Get hdr ''Authorization''))
   \<and> (\<not> (8 \<le> length (Get hdr ''Authorization'') \<and> take 6 (Get hdr ''Authorization'') = ''Bearer'')
      \<longrightarrow> ExtractJWTFromHeader hdr = '''')
   \<and> (hdr ''Authorization'' = None \<longrightarrow> ExtractJWTFromHeader hdr = '''')
   \<and> (\<forall>c tok vs. tok \<noteq> [] \<and> hdr ''Authorization'' = Some ((''Bearer'' @ c # tok) # vs)
      \<longrightarrow> ExtractJWTFromHeader hdr = tok)"
proof -
  have "ExtractJWTFromHeader hdr = tok"
    if "tok \<noteq> []" and "hdr ''Authorization'' = Some ((''Bearer'' @ c # tok) # vs)" for c tok vs
    using that by (cases tok) (simp_all add: ExtractJWTFromHeader_eq Get_def)
  moreover have "ExtractJWTFromHeader hdr = ''''" if "hdr ''Authorization'' = None"
    using that by (simp add: ExtractJWTFromHeader_eq Get_def)
  ultimately show ?thesis
    by (simp add: ExtractJWTFromHeader_eq)
qed

theorem ExtractJWTFromHeader_bearer_witness:
  "ExtractJWTFromHeader [''Authorization'' \<mapsto> [''Bearer abc'']] = ''abc''
   \<and> ExtractJWTFromHeader [''Authorization'' \<mapsto> [''BearerXabc'']] = ''abc''
   \<and> ExtractJWTFromHeader [''Authorization'' \<mapsto> [''Bearer '']] = ''''
   \<and> ExtractJWTFromHeader [''Authorization'' \<mapsto> [''Basic abcdef'']] = ''''
   \<and> ExtractJWTFromHeader Map.empty = ''''"
  using ExtractJWTFromHeader_bearer [of "[''Authorization'' \<mapsto> [''Bearer abc'']]"]
        ExtractJWTFromHeader_bearer [of "[''Authorization'' \<mapsto> [''BearerXabc'']]"]
        ExtractJWTFromHeader_bearer [of "[''Authorization'' \<mapsto> [''Bearer '']]"]
        ExtractJWTFromHeader_bearer [of "[''Authorization'' \<mapsto> [''Basic abcdef'']]"]
        ExtractJWTFromHeader_bearer [of "Map.empty"]
  by (simp add: Get_def)

text \<open>
  C9. \<open>ExtractUserInfoFromJWT\<close> returns nil exactly when the parse error is nil and
  the token is valid, and the error \<open>invalid user token\<close> otherwise; it never
  returns \<open>token is expired\<close>, for every parse result and every value of the
  library's bit masks.
\<close>

theorem ExtractUserInfoFromJWT_results:
  "ExtractUserInfoFromJWT jwt ParseWithClaims hdr =
     (if snd (ParseWithClaims (ExtractJWTFromHeader hdr)) = None
         \<and> Valid (fst (ParseWithClaims (ExtractJWTFromHeader hdr)))
      then None else Some ''invalid user token'')
   \<and> ExtractUserInfoFromJWT jwt ParseWithClaims hdr \<noteq> Some ''token is expired''"
  by (auto simp: ExtractUserInfoFromJWT_def Let_def split: prod.splits option.splits go_error.splits)

section \<open>Execute: pool submission and fallback\<close>

text \<open>
  C1. When the pool is found and its \<open>Submit\<close> returns an error, \<open>Execute\<close> panics
  with that error and the deferred \<open>recoverPanic(nil)\<close> recovers it on the calling
  goroutine: the caller of \<open>Execute\<close> sees a normal return, nothing is handed to
  another goroutine, and the events after \<open>Submit\<close> are those of the recovery of a
  unit of work that panics with the same value on the unpooled goroutine (the error is
  logged, and reported to Sentry when reporting is on).
\<close>

theorem Execute_submit_failure:
  assumes "GetPool name = (Some p, None)" and "SubmitError p = Some e"
  shows "Execute cfg GetPool fn (name # rest) =
           \<lparr>caller = ([Submit] @ fst (recoverPanic cfg None (Some (ErrorValue e))), None),
            spawned = None\<rparr>
         \<and> fst (recoverPanic cfg None (Some (ErrorValue e))) =
             (if On cfg then [CurrentHubClone, ConfigureScopeSetTag ''goroutine'' ''true'',
                              HubRecover (ErrorValue e)] else []) @
             [LoggerError (ErrorValue e)]
         \<and> spawned (Execute cfg GetPool (call (Some (ErrorValue e))) []) =
             Some (Goroutine, ([Called] @ fst (recoverPanic cfg None (Some (ErrorValue e))), None))"
  using assms
  by (simp add: Execute_def asyncFunc_pool_def asyncFunc_go_def seq_def call_def
      with_defer_recoverPanic recoverPanic_Some)

theorem Execute_submit_failure_witness:
  "Execute \<lparr>On = True, tracesSampleRate = 1, skipTracesEndpoints = []\<rparr>
     (\<lambda>n. (Some \<lparr>SubmitError = Some ''pool overload''\<rparr>, None)) (call None) [''p''] =
     \<lparr>caller = ([Submit, CurrentHubClone, ConfigureScopeSetTag ''goroutine'' ''true'',
                 HubRecover (ErrorValue ''pool overload''), LoggerError (ErrorValue ''pool overload'')],
                None),
      spawned = None\<rparr>"
  using Execute_submit_failure [of "\<lambda>n. (Some \<lparr>SubmitError = Some ''pool overload''\<rparr>, None)" "''p''"
      "\<lparr>SubmitError = Some ''pool overload''\<rparr>" "''pool overload''"
      "\<lparr>On = True, tracesSampleRate = 1, skipTracesEndpoints = []\<rparr>" "call None" "[]"]
  by simp

text \<open>
  C4. When the pool name does not resolve to a live pool (\<open>GetPool\<close> returns an
  error or a nil pool), \<open>Execute\<close> logs the warning with the pool name and starts a
  goroutine that runs the task once under \<open>defer recoverPanic(nil)\<close>; the goroutine
  ends normally, and the unit of work is called exactly once.
\<close>

theorem Execute_missing_pool:
  assumes "GetPool name = (p, err)" and "\<not> (err = None \<and> p \<noteq> None)"
  shows "Execute cfg GetPool fn (name # rest) =
           \<lparr>caller = ([Warnf name, GoStmt], None),
            spawned = Some (Goroutine, (fst fn @ fst (recoverPanic cfg None (snd fn)), None))\<rparr>
         \<and> count_list (events (Execute cfg GetPool (call w) (name # rest))) Called = 1"
  using assms
  by (cases fn; cases p; cases err)
     (auto simp: Execute_def asyncFunc_go_def before_def with_defer_recoverPanic events_def call_def
      recoverPanic_def Let_def)

theorem Execute_missing_pool_witness:
  "Execute \<lparr>On = False, tracesSampleRate = 0, skipTracesEndpoints = []\<rparr>
     (\<lambda>n. (None, Some ''pool not found'')) (call (Some (StringValue ''boom''))) [''ghost_pool''] =
     \<lparr>caller = ([Warnf ''ghost_pool'', GoStmt], None),
      spawned = Some (Goroutine, ([Called, LoggerError (StringValue ''boom'')], None))\<rparr>"
  using Execute_missing_pool [of "\<lambda>n. (None, Some ''pool not found'')" "''ghost_pool''" None
      "Some ''pool not found''" "\<lparr>On = False, tracesSampleRate = 0, skipTracesEndpoints = []\<rparr>"
      "call (Some (StringValue ''boom''))" "[]"]
  by (simp add: call_def recoverPanic_def)

section \<open>ExecuteWithContext: recovery, release and the span\<close>

text \<open>
  C6. When the unit of work of \<open>ExecuteWithContext\<close> is called and panics,
  \<open>recoverPanic(ec)\<close> is the first deferred call to run: it runs with the acquired
  context (not nil), right after the unit of work and before any \<open>ReleaseContext\<close>;
  the context is released right after the recovery, the panic is stopped, and nothing
  releases the context a second time.
\<close>

theorem ExecuteWithContext_recover_then_release:
  assumes "spawned (ExecuteWithContext cfg re GetPool fn c poolName) = Some (t, (es, p))"
    and "Called \<in> set es"
    and "\<forall>ec. fn ec \<noteq> None"
  shows "\<exists>pre post ec' v.
           fn ec' = Some v
         \<and> es = pre @ [Called] @ fst (recoverPanic cfg (Some ec') (Some v)) @ [ReleaseContext] @ post
         \<and> ReleaseContext \<notin> set (pre @ [Called] @ fst (recoverPanic cfg (Some ec') (Some v)))
         \<and> ReleaseContext \<notin> set post
         \<and> p = None"
proof -
  from spawned_reached [OF assms(1,2)] obtain pre ec' where
    es: "es = pre @ [Called] @ fst (recoverPanic cfg (Some ec') (fn ec')) @ [ReleaseContext] @
              (if On cfg \<and> 0 < tracesSampleRate cfg then [SpanFinish] else [])"
    and p: "p = None"
    and pre: "pre = (if On cfg then bind_hub \<lparr>Request = (Request c)\<lparr>Context := TODO\<rparr>\<rparr> else []) @
                  (if On cfg \<and> 0 < tracesSampleRate cfg
                   then [StartSpan (TransactionName (Request c))] @
                        (if skip_loop re (skipTracesEndpoints cfg) (Path (Request c)) = Inr True
                         then [SetSampledFalse] else []) @
                        [EcSetRequest (span_request \<lparr>Request = (Request c)\<lparr>Context := TODO\<rparr>\<rparr>)]
                   else [])"
    by blast
  from assms(3) obtain v where v: "fn ec' = Some v" by auto
  have "ReleaseContext \<notin> set pre"
    by (simp add: pre bind_hub_def)
  with es p v show ?thesis
    by (intro exI [of _ pre] exI [of _ "if On cfg \<and> 0 < tracesSampleRate cfg then [SpanFinish] else []"]
        exI [of _ ec'] exI [of _ v])
       (simp add: ReleaseContext_notin_recoverPanic)
qed

theorem ExecuteWithContext_recover_then_release_witness:
  "spawned (ExecuteWithContext \<lparr>On = True, tracesSampleRate = 0, skipTracesEndpoints = []\<rparr>
      (\<lambda>p. None) (\<lambda>n. (None, None)) (\<lambda>ec. Some (StringValue ''boom''))
      \<lparr>Request = \<lparr>Method = ''GET'', Path = ''/orders'', Context = TODO\<rparr>\<rparr> []) =
     Some (Goroutine,
       ([CurrentHubClone, ScopeSetRequest \<lparr>Method = ''GET'', Path = ''/orders'', Context = TODO\<rparr>,
         SetHubOnContext, EcSet ''sentry'', Called,
         CurrentHubClone, ScopeSetRequest \<lparr>Method = ''GET'', Path = ''/orders'', Context = TODO\<rparr>,
         ConfigureScopeSetTag ''goroutine'' ''true'', HubRecover (StringValue ''boom''),
         LoggerError (StringValue ''boom''), ReleaseContext], None))
   \<and> (\<exists>pre post ec' v.
         [CurrentHubClone, ScopeSetRequest \<lparr>Method = ''GET'', Path = ''/orders'', Context = TODO\<rparr>,
          SetHubOnContext, EcSet ''sentry'', Called,
          CurrentHubClone, ScopeSetRequest \<lparr>Method = ''GET'', Path = ''/orders'', Context = TODO\<rparr>,
          ConfigureScopeSetTag ''goroutine'' ''true'', HubRecover (StringValue ''boom''),
          LoggerError (StringValue ''boom''), ReleaseContext] =
         pre @ [Called] @
         fst (recoverPanic \<lparr>On = True, tracesSampleRate = 0, skipTracesEndpoints = []\<rparr> (Some ec') (Some v)) @
         [ReleaseContext] @ post
       \<and> ReleaseContext \<notin> set post)"
proof -
  let ?es = "[CurrentHubClone, ScopeSetRequest \<lparr>Method = ''GET'', Path = ''/orders'', Context = TODO\<rparr>,
         SetHubOnContext, EcSet ''sentry'', Called,
         CurrentHubClone, ScopeSetRequest \<lparr>Method = ''GET'', Path = ''/orders'', Context = TODO\<rparr>,
         ConfigureScopeSetTag ''goroutine'' ''true'', HubRecover (StringValue ''boom''),
         LoggerError (StringValue ''boom''), ReleaseContext]"
  have sp: "spawned (ExecuteWithContext \<lparr>On = True, tracesSampleRate = 0, skipTracesEndpoints = []\<rparr>
      (\<lambda>p. None) (\<lambda>n. (None, None)) (\<lambda>ec. Some (StringValue ''boom''))
      \<lparr>Request = \<lparr>Method = ''GET'', Path = ''/orders'', Context = TODO\<rparr>\<rparr> []) =
     Some (Goroutine, (?es, None))"
    by (simp add: async_defs)
  have called: "Called \<in> set ?es" by simp
  have panics: "\<forall>ec :: echo_context. (\<lambda>ec. Some (StringValue ''boom'')) ec \<noteq> None" by simp
  from ExecuteWithContext_recover_then_release [OF sp called panics] sp
  show ?thesis by blast
qed

text \<open>
  C5, as the code has it. For every scheduled execution under \<open>ExecuteWithContext\<close>
  that reaches the unit of work, the context is released right after the unit of work
  and its panic recovery. A span is started exactly when reporting is on and the
  sampling rate is positive, and then \<open>span.Finish()\<close>, deferred first, runs last:
  the span is closed right after the context is released (ContextReleased, then
  SpanClosed). The release is the last event exactly when no span was started.
\<close>

theorem ExecuteWithContext_release_then_finish:
  assumes "spawned (ExecuteWithContext cfg re GetPool fn c poolName) = Some (t, (es, p))"
    and "Called \<in> set es"
  shows "\<exists>pre ec'.
           es = pre @ [Called] @ fst (recoverPanic cfg (Some ec') (fn ec')) @ [ReleaseContext] @
                (if On cfg \<and> 0 < tracesSampleRate cfg then [SpanFinish] else [])
         \<and> ReleaseContext \<notin> set pre \<and> SpanFinish \<notin> set pre
         \<and> ((\<exists>n. StartSpan n \<in> set es) \<longleftrightarrow> On cfg \<and> 0 < tracesSampleRate cfg)
         \<and> last es = (if On cfg \<and> 0 < tracesSampleRate cfg then SpanFinish else ReleaseContext)
         \<and> p = None"
proof -
  from spawned_reached [OF assms] obtain pre ec' where
    es: "es = pre @ [Called] @ fst (recoverPanic cfg (Some ec') (fn ec')) @ [ReleaseContext] @
              (if On cfg \<and> 0 < tracesSampleRate cfg then [SpanFinish] else [])"
    and p: "p = None"
    and pre: "pre = (if On cfg then bind_hub \<lparr>Request = (Request c)\<lparr>Context := TODO\<rparr>\<rparr> else []) @
                  (if On cfg \<and> 0 < tracesSampleRate cfg
                   then [StartSpan (TransactionName (Request c))] @
                        (if skip_loop re (skipTracesEndpoints cfg) (Path (Request c)) = Inr True
                         then [SetSampledFalse] else []) @
                        [EcSetRequest (span_request \<lparr>Request = (Request c)\<lparr>Context := TODO\<rparr>\<rparr>)]
                   else [])"
    by blast
  have 1: "ReleaseContext \<notin> set pre" and 2: "SpanFinish \<notin> set pre"
    by (simp_all add: pre bind_hub_def)
  have 3: "(\<exists>n. StartSpan n \<in> set pre) \<longleftrightarrow> On cfg \<and> 0 < tracesSampleRate cfg"
    by (auto simp: pre bind_hub_def)
  have 4: "(\<exists>n. StartSpan n \<in> set es) \<longleftrightarrow> (\<exists>n. StartSpan n \<in> set pre)"
    by (auto simp: es StartSpan_notin_recoverPanic)
  have 5: "last es = (if On cfg \<and> 0 < tracesSampleRate cfg then SpanFinish else ReleaseContext)"
    by (simp add: es)
  from es p 1 2 3 4 5 show ?thesis
    by blast
qed

theorem ExecuteWithContext_release_then_finish_witness:
  "spawned (ExecuteWithContext \<lparr>On = True, tracesSampleRate = 1, skipTracesEndpoints = []\<rparr>
      (\<lambda>p. None) (\<lambda>n. (None, None)) (\<lambda>ec. None)
      \<lparr>Request = \<lparr>Method = ''GET'', Path = ''/orders'', Context = TODO\<rparr>\<rparr> []) =
     Some (Goroutine,
       ([CurrentHubClone, ScopeSetRequest \<lparr>Method = ''GET'', Path = ''/orders'', Context = TODO\<rparr>,
         SetHubOnContext, EcSet ''sentry'', StartSpan ''GET /orders ASYNC'',
         EcSetRequest \<lparr>Method = ''GET'', Path = ''/orders'', Context = WithSpan (WithHub TODO)\<rparr>,
         Called, ReleaseContext, SpanFinish], None))
   \<and> (\<exists>pre ec'.
         [CurrentHubClone, ScopeSetRequest \<lparr>Method = ''GET'', Path = ''/orders'', Context = TODO\<rparr>,
          SetHubOnContext, EcSet ''sentry'', StartSpan ''GET /orders ASYNC'',
          EcSetRequest \<lparr>Method = ''GET'', Path = ''/orders'', Context = WithSpan (WithHub TODO)\<rparr>,
          Called, ReleaseContext, SpanFinish] =
         pre @ [Called] @
         fst (recoverPanic \<lparr>On = True, tracesSampleRate = 1, skipTracesEndpoints = []\<rparr> (Some ec') None) @
         [ReleaseContext, SpanFinish]
       \<and> ReleaseContext \<notin> set pre \<and> SpanFinish \<notin> set pre)"
proof -
  let ?es = "[CurrentHubClone, ScopeSetRequest \<lparr>Method = ''GET'', Path = ''/orders'', Context = TODO\<rparr>,
         SetHubOnContext, EcSet ''sentry'', StartSpan ''GET /orders ASYNC'',
         EcSetRequest \<lparr>Method = ''GET'', Path = ''/orders'', Context = WithSpan (WithHub TODO)\<rparr>,
         Called, ReleaseContext, SpanFinish]"
  have sp: "spawned (ExecuteWithContext \<lparr>On = True, tracesSampleRate = 1, skipTracesEndpoints = []\<rparr>
      (\<lambda>p. None) (\<lambda>n. (None, None)) (\<lambda>ec. None)
      \<lparr>Request = \<lparr>Method = ''GET'', Path = ''/orders'', Context = TODO\<rparr>\<rparr> []) =
     Some (Goroutine, (?es, None))"
    by (simp add: async_defs)
  have called: "Called \<in> set ?es" by simp
  from ExecuteWithContext_release_then_finish [OF sp called] sp
  show ?thesis by simp
qed

text \<open>
  C5 as stated fails. With reporting on and sampling rate 1 the scheduled execution ends
  with \<open>ReleaseContext\<close> followed by \<open>SpanFinish\<close>: the span is closed after the
  release, and the release is not the last event. With a skip pattern that does not
  parse, \<open>regexp.MustCompile\<close> panics before anything is deferred and the scheduled
  execution ends without any release.
\<close>

theorem ExecuteWithContext_release_not_last:
  "spawned (ExecuteWithContext \<lparr>On = True, tracesSampleRate = 1, skipTracesEndpoints = []\<rparr>
      (\<lambda>p. None) (\<lambda>n. (None, None)) (\<lambda>ec. None)
      \<lparr>Request = \<lparr>Method = ''GET'', Path = ''/orders'', Context = TODO\<rparr>\<rparr> []) =
     Some (Goroutine,
       ([CurrentHubClone, ScopeSetRequest \<lparr>Method = ''GET'', Path = ''/orders'', Context = TODO\<rparr>,
         SetHubOnContext, EcSet ''sentry'', StartSpan ''GET /orders ASYNC'',
         EcSetRequest \<lparr>Method = ''GET'', Path = ''/orders'', Context = WithSpan (WithHub TODO)\<rparr>,
         Called, ReleaseContext, SpanFinish], None))
   \<and> spawned (ExecuteWithContext \<lparr>On = True, tracesSampleRate = 1, skipTracesEndpoints = [''('']\<rparr>
      (\<lambda>p. None) (\<lambda>n. (None, None)) (\<lambda>ec. None)
      \<lparr>Request = \<lparr>Method = ''GET'', Path = ''/orders'', Context = TODO\<rparr>\<rparr> []) =
     Some (Goroutine,
       ([CurrentHubClone, ScopeSetRequest \<lparr>Method = ''GET'', Path = ''/orders'', Context = TODO\<rparr>,
         SetHubOnContext, EcSet ''sentry'', StartSpan ''GET /orders ASYNC'',
         CurrentHubClone, ConfigureScopeSetTag ''goroutine'' ''true'', HubRecover (RegexpPanic ''(''),
         LoggerError (RegexpPanic ''('')], None))"
  by (simp add: async_defs)

text \<open>
  C2 at the input where the code departs from it: the pool is found and its
  \<open>Submit\<close> returns an error. The context was acquired before \<open>Execute\<close> was called,
  the closure that holds the deferred \<open>ReleaseContext\<close> never runs, so one acquire is
  paired with no release.
\<close>

theorem ExecuteWithContext_submit_failure_leaks:
  "ExecuteWithContext \<lparr>On = False, tracesSampleRate = 0, skipTracesEndpoints = []\<rparr>
      (\<lambda>p. None) (\<lambda>n. (Some \<lparr>SubmitError = Some ''pool overload''\<rparr>, None)) (\<lambda>ec. None)
      \<lparr>Request = \<lparr>Method = ''GET'', Path = ''/orders'', Context = TODO\<rparr>\<rparr> [''p''] =
     \<lparr>caller = ([AcquireContext, Reset \<lparr>Method = ''GET'', Path = ''/orders'', Context = TODO\<rparr>,
                 Submit, LoggerError (ErrorValue ''pool overload'')], None),
      spawned = None\<rparr>
   \<and> count_list (events (ExecuteWithContext \<lparr>On = False, tracesSampleRate = 0, skipTracesEndpoints = []\<rparr>
      (\<lambda>p. None) (\<lambda>n. (Some \<lparr>SubmitError = Some ''pool overload''\<rparr>, None)) (\<lambda>ec. None)
      \<lparr>Request = \<lparr>Method = ''GET'', Path = ''/orders'', Context = TODO\<rparr>\<rparr> [''p''])) AcquireContext = 1
   \<and> count_list (events (ExecuteWithContext \<lparr>On = False, tracesSampleRate = 0, skipTracesEndpoints = []\<rparr>
      (\<lambda>p. None) (\<lambda>n. (Some \<lparr>SubmitError = Some ''pool overload''\<rparr>, None)) (\<lambda>ec. None)
      \<lparr>Request = \<lparr>Method = ''GET'', Path = ''/orders'', Context = TODO\<rparr>\<rparr> [''p''])) ReleaseContext = 0"
  by (simp add: async_defs)

section \<open>Panics in the unit of work\<close>

text \<open>
  C3, as the code has it. A unit of work that panics with a non-nil value, on the
  goroutine that \<open>Execute\<close> starts when no pool is used (no pool name, or a name that
  does not resolve) or inside the closure of \<open>ExecuteWithContext\<close>, is recovered by
  \<open>recoverPanic\<close>: the goroutine ends normally, the value is written to the log, and
  it is forwarded to Sentry (on a clone of the current hub, with the request when a
  context is present, tagged goroutine=true) exactly when reporting is on. With
  reporting off no call reaches Sentry, whatever the unit of work does, and no panic
  reaches the caller of \<open>Execute\<close> or \<open>ExecuteWithContext\<close>.
\<close>

theorem panic_recovered_logged_reported:
  assumes v: "v \<noteq> NilValue"
  shows "spawned (Execute cfg GetPool (call (Some v)) []) =
           Some (Goroutine,
             ([Called] @
              (if On cfg then [CurrentHubClone, ConfigureScopeSetTag ''goroutine'' ''true'',
                               HubRecover v] else []) @
              [LoggerError v], None))
       \<and> (GetPool name = (pl, err) \<and> \<not> (err = None \<and> pl \<noteq> None) \<longrightarrow>
            spawned (Execute cfg GetPool (call (Some v)) (name # rest)) =
              Some (Goroutine,
                ([Called] @
                 (if On cfg then [CurrentHubClone, ConfigureScopeSetTag ''goroutine'' ''true'',
                                  HubRecover v] else []) @
                 [LoggerError v], None)))
       \<and> (spawned (ExecuteWithContext cfg re GetPool fn c poolName) = Some (t, (es, p))
            \<and> Called \<in> set es \<and> (\<forall>ec. fn ec = Some v) \<longrightarrow>
            (\<exists>pre post r.
               es = pre @ [Called] @
                    (if On cfg then [CurrentHubClone, ScopeSetRequest r,
                                     ConfigureScopeSetTag ''goroutine'' ''true'', HubRecover v] else []) @
                    [LoggerError v] @ post
             \<and> Method r = Method (Request c) \<and> Path r = Path (Request c)
             \<and> (HubRecover v \<in> set es \<longleftrightarrow> On cfg)
             \<and> p = None))
       \<and> (\<not> On cfg \<longrightarrow>
            (\<forall>e\<in>set (events (Execute cfg GetPool (call w) poolName)). \<not> sentry_call e)
          \<and> (\<forall>e\<in>set (events (ExecuteWithContext cfg re GetPool fn c poolName)). \<not> sentry_call e))
       \<and> snd (caller (Execute cfg GetPool (call w) poolName)) = None
       \<and> snd (caller (ExecuteWithContext cfg re GetPool fn c poolName)) = None"
proof -
  let ?rec = "(if On cfg then [CurrentHubClone, ConfigureScopeSetTag ''goroutine'' ''true'',
                               HubRecover v] else []) @ [LoggerError v]"
  have go: "spawned (asyncFunc_go cfg (call (Some v))) = Some (Goroutine, ([Called] @ ?rec, None))"
    using v by (simp add: asyncFunc_go_eq call_def recoverPanic_Some)
  have 1: "spawned (Execute cfg GetPool (call (Some v)) []) = Some (Goroutine, ([Called] @ ?rec, None))"
    using go by (simp add: Execute_def)
  have 2: "spawned (Execute cfg GetPool (call (Some v)) (name # rest)) =
             Some (Goroutine, ([Called] @ ?rec, None))"
    if "GetPool name = (pl, err)" "\<not> (err = None \<and> pl \<noteq> None)"
    using that go by (cases pl; cases err) (auto simp: Execute_def before_def)
  have 3: "\<exists>pre post r.
               es = pre @ [Called] @
                    (if On cfg then [CurrentHubClone, ScopeSetRequest r,
                                     ConfigureScopeSetTag ''goroutine'' ''true'', HubRecover v] else []) @
                    [LoggerError v] @ post
             \<and> Method r = Method (Request c) \<and> Path r = Path (Request c)
             \<and> (HubRecover v \<in> set es \<longleftrightarrow> On cfg)
             \<and> p = None"
    if sp: "spawned (ExecuteWithContext cfg re GetPool fn c poolName) = Some (t, (es, p))"
      and called: "Called \<in> set es" and fn: "\<forall>ec. fn ec = Some v"
  proof -
    from spawned_reached [OF sp called] obtain pre ec' where
      es: "es = pre @ [Called] @ fst (recoverPanic cfg (Some ec') (fn ec')) @ [ReleaseContext] @
                (if On cfg \<and> 0 < tracesSampleRate cfg then [SpanFinish] else [])"
      and p: "p = None"
      and ec': "Request ec' = (if On cfg \<and> 0 < tracesSampleRate cfg
                           then span_request \<lparr>Request = (Request c)\<lparr>Context := TODO\<rparr>\<rparr>
                           else (Request c)\<lparr>Context := TODO\<rparr>)"
      and pre: "pre = (if On cfg then bind_hub \<lparr>Request = (Request c)\<lparr>Context := TODO\<rparr>\<rparr> else []) @
                  (if On cfg \<and> 0 < tracesSampleRate cfg
                   then [StartSpan (TransactionName (Request c))] @
                        (if skip_loop re (skipTracesEndpoints cfg) (Path (Request c)) = Inr True
                         then [SetSampledFalse] else []) @
                        [EcSetRequest (span_request \<lparr>Request = (Request c)\<lparr>Context := TODO\<rparr>\<rparr>)]
                   else [])"
      by blast
    have rec: "fst (recoverPanic cfg (Some ec') (fn ec')) =
        (if On cfg then [CurrentHubClone, ScopeSetRequest (Request ec'),
                         ConfigureScopeSetTag ''goroutine'' ''true'', HubRecover v] else []) @
        [LoggerError v]"
      using v fn by (simp add: recoverPanic_Some)
    have r: "Method (Request ec') = Method (Request c)" "Path (Request ec') = Path (Request c)"
      by (simp_all add: ec' span_request_def)
    have "HubRecover v \<notin> set pre"
      by (simp add: pre bind_hub_def)
    then have hub: "HubRecover v \<in> set es \<longleftrightarrow> On cfg"
      by (simp add: es rec)
    from es rec r hub p show ?thesis
      by (intro exI [of _ pre] exI [of _ "Request ec'"]
          exI [of _ "[ReleaseContext] @ (if On cfg \<and> 0 < tracesSampleRate cfg then [SpanFinish] else [])"])
         simp
  qed
  have 4: "\<forall>e\<in>set (events (Execute cfg GetPool (call w) poolName)). \<not> sentry_call e"
    if "\<not> On cfg"
  proof
    fix e assume e: "e \<in> set (events (Execute cfg GetPool (call w) poolName))"
    show "\<not> sentry_call e"
    proof (rule Execute_off_no_sentry [OF that])
      show "e \<in> set (events (Execute cfg GetPool (call w) poolName))" by (rule e)
      show "\<And>e'. e' \<in> set (fst (call w)) \<Longrightarrow> \<not> sentry_call e'" by (simp add: call_def)
    qed
  qed
  have 5: "\<forall>e\<in>set (events (ExecuteWithContext cfg re GetPool fn c poolName)). \<not> sentry_call e"
    if "\<not> On cfg"
    using that by (blast dest: ExecuteWithContext_off_no_sentry)
  from 1 2 3 4 5 show ?thesis
    by (simp only: Execute_caller_returns ExecuteWithContext_caller_returns) blast
qed


theorem panic_recovered_logged_reported_witness:
  "spawned (Execute \<lparr>On = True, tracesSampleRate = 0, skipTracesEndpoints = []\<rparr>
      (\<lambda>n. (None, Some ''pool not found'')) (call (Some (StringValue ''boom''))) [''ghost_pool'']) =
     Some (Goroutine,
       ([Called, CurrentHubClone, ConfigureScopeSetTag ''goroutine'' ''true'',
         HubRecover (StringValue ''boom''), LoggerError (StringValue ''boom'')], None))
   \<and> (\<exists>pre post r.
         [CurrentHubClone, ScopeSetRequest \<lparr>Method = ''GET'', Path = ''/orders'', Context = TODO\<rparr>,
          SetHubOnContext, EcSet ''sentry'', Called,
          CurrentHubClone, ScopeSetRequest \<lparr>Method = ''GET'', Path = ''/orders'', Context = TODO\<rparr>,
          ConfigureScopeSetTag ''goroutine'' ''true'', HubRecover (StringValue ''boom''),
          LoggerError (StringValue ''boom''), ReleaseContext] =
         pre @ [Called] @
         [CurrentHubClone, ScopeSetRequest r, ConfigureScopeSetTag ''goroutine'' ''true'',
          HubRecover (StringValue ''boom'')] @
         [LoggerError (StringValue ''boom'')] @ post
       \<and> Method r = ''GET'' \<and> Path r = ''/orders'')
   \<and> filter sentry_call
        (events (ExecuteWithContext \<lparr>On = False, tracesSampleRate = 0, skipTracesEndpoints = []\<rparr>
           (\<lambda>p. None) (\<lambda>n. (None, Some ''pool not found'')) (\<lambda>ec. Some (StringValue ''boom''))
           \<lparr>Request = \<lparr>Method = ''GET'', Path = ''/orders'', Context = TODO\<rparr>\<rparr> [])) = []"
proof -
  let ?on = "\<lparr>On = True, tracesSampleRate = 0, skipTracesEndpoints = []\<rparr>"
  let ?off = "\<lparr>On = False, tracesSampleRate = 0, skipTracesEndpoints = []\<rparr>"
  let ?G = "\<lambda>n :: string. (None :: pool option, Some ''pool not found'')"
  let ?fn = "\<lambda>ec :: echo_context. Some (StringValue ''boom'')"
  let ?c = "\<lparr>Request = \<lparr>Method = ''GET'', Path = ''/orders'', Context = TODO\<rparr>\<rparr>"
  let ?es = "[CurrentHubClone, ScopeSetRequest \<lparr>Method = ''GET'', Path = ''/orders'', Context = TODO\<rparr>,
          SetHubOnContext, EcSet ''sentry'', Called,
          CurrentHubClone, ScopeSetRequest \<lparr>Method = ''GET'', Path = ''/orders'', Context = TODO\<rparr>,
          ConfigureScopeSetTag ''goroutine'' ''true'', HubRecover (StringValue ''boom''),
          LoggerError (StringValue ''boom''), ReleaseContext]"
  have v: "StringValue ''boom'' \<noteq> NilValue" by simp
  have sp: "spawned (ExecuteWithContext ?on (\<lambda>p. None) ?G ?fn ?c []) = Some (Goroutine, (?es, None))"
    by (simp add: async_defs)
  have called: "Called \<in> set ?es" by simp
  note on = panic_recovered_logged_reported [OF v, where cfg = ?on and GetPool = ?G
      and name = "''ghost_pool''" and pl = None and err = "Some ''pool not found''" and rest = "[]"
      and re = "\<lambda>p. None" and fn = ?fn and c = ?c and poolName = "[]" and t = Goroutine
      and es = ?es and p = None and w = "Some (StringValue ''boom'')"]
  note off = panic_recovered_logged_reported [OF v, where cfg = ?off and GetPool = ?G
      and name = "''ghost_pool''" and pl = None and err = "Some ''pool not found''" and rest = "[]"
      and re = "\<lambda>p. None" and fn = ?fn and c = ?c and poolName = "[]" and t = Goroutine
      and es = ?es and p = None and w = "Some (StringValue ''boom'')"]
  have 1: "spawned (Execute ?on ?G (call (Some (StringValue ''boom''))) [''ghost_pool'']) =
     Some (Goroutine,
       ([Called, CurrentHubClone, ConfigureScopeSetTag ''goroutine'' ''true'',
         HubRecover (StringValue ''boom''), LoggerError (StringValue ''boom'')], None))"
    using on by simp
  have 2: "\<exists>pre post r.
         ?es = pre @ [Called] @
         [CurrentHubClone, ScopeSetRequest r, ConfigureScopeSetTag ''goroutine'' ''true'',
          HubRecover (StringValue ''boom'')] @
         [LoggerError (StringValue ''boom'')] @ post
       \<and> Method r = ''GET'' \<and> Path r = ''/orders''"
    using on sp called by simp
  have 3: "filter sentry_call (events (ExecuteWithContext ?off (\<lambda>p. None) ?G ?fn ?c [])) = []"
    using off by (simp add: filter_empty_conv)
  from 1 2 3 show ?thesis by blast
qed

text \<open>
  C3 as stated fails. A unit of work handed to a pool by \<open>Execute\<close> runs on a worker
  of the pool, where no \<open>recoverPanic\<close> is deferred: its panic is neither recovered,
  logged nor reported by this package, although reporting is on. And a unit of work
  that panics with nil (under the Go 1.18 toolchain) is recovered without a log line
  and without a report, because \<open>recover()\<close> returns nil.
\<close>

theorem panic_not_always_recovered_or_logged:
  "Execute \<lparr>On = True, tracesSampleRate = 0, skipTracesEndpoints = []\<rparr>
      (\<lambda>n. (Some \<lparr>SubmitError = None\<rparr>, None)) (call (Some (StringValue ''boom''))) [''p''] =
     \<lparr>caller = ([Submit], None),
      spawned = Some (Worker, ([Called], Some (StringValue ''boom'')))\<rparr>
   \<and> Execute \<lparr>On = True, tracesSampleRate = 0, skipTracesEndpoints = []\<rparr>
      (\<lambda>n. (None, None)) (call (Some NilValue)) [] =
     \<lparr>caller = ([GoStmt], None), spawned = Some (Goroutine, ([Called], None))\<rparr>"
  by (simp add: async_defs)

section \<open>The tracing span\<close>

lemma spawned_span_form:
  assumes sp: "spawned (ExecuteWithContext cfg re GetPool fn c poolName) = Some (t, (es, p))"
    and on: "On cfg" and rate: "0 < tracesSampleRate cfg"
    and loop: "skip_loop re (skipTracesEndpoints cfg) (Path (Request c)) = Inr skip"
  shows "es = bind_hub \<lparr>Request = (Request c)\<lparr>Context := TODO\<rparr>\<rparr> @
              [StartSpan (TransactionName (Request c))] @
              (if skip then [SetSampledFalse] else []) @
              [EcSetRequest (span_request \<lparr>Request = (Request c)\<lparr>Context := TODO\<rparr>\<rparr>), Called] @
              fst (recoverPanic cfg (Some \<lparr>Request = span_request \<lparr>Request = (Request c)\<lparr>Context := TODO\<rparr>\<rparr>\<rparr>)
                     (fn \<lparr>Request = span_request \<lparr>Request = (Request c)\<lparr>Context := TODO\<rparr>\<rparr>\<rparr>)) @
              [ReleaseContext, SpanFinish]
         \<and> p = None"
proof -
  let ?ec = "\<lparr>Request = (Request c)\<lparr>Context := TODO\<rparr>\<rparr>"
  from loop have "skip_loop re (skipTracesEndpoints cfg) (Path (Request ?ec)) = Inr skip"
    by simp
  from spawned_of_closure_returns [OF sp closure_span [OF on rate this]]
  show ?thesis
    by (simp add: run_task_eq TransactionName_def)
qed

text \<open>
  C7, as the code has it. Whenever the closure of \<open>ExecuteWithContext\<close> is run (on
  the goroutine or on a pool worker), a span is started exactly when reporting is on
  and the sampling rate, clamped to the range from 0 to 1, is greater than 0. With
  reporting on and a rate of 0 (or less) no span is started, and a unit of work that
  panics with a non-nil value is still recovered, logged and forwarded to Sentry.
  Whenever a span is started and \<open>regexp.MustCompile\<close> does not panic in the loop over
  the skip patterns, the span is finished exactly once, as the last event.
\<close>

theorem ExecuteWithContext_span:
  assumes sp: "spawned (ExecuteWithContext cfg re GetPool fn c poolName) = Some (t, (es, p))"
  shows "((\<exists>n. StartSpan n \<in> set es) \<longleftrightarrow> On cfg \<and> 0 < FloatInRange (tracesSampleRate cfg) 0 1)
       \<and> (On cfg \<and> tracesSampleRate cfg \<le> 0 \<and> v \<noteq> NilValue \<and> (\<forall>ec. fn ec = Some v) \<longrightarrow>
            (\<forall>n. StartSpan n \<notin> set es) \<and> HubRecover v \<in> set es \<and> LoggerError v \<in> set es
            \<and> p = None)
       \<and> ((\<exists>n. StartSpan n \<in> set es)
            \<and> (\<forall>x. skip_loop re (skipTracesEndpoints cfg) (Path (Request c)) \<noteq> Inl x) \<longrightarrow>
            count_list es SpanFinish = 1 \<and> last es = SpanFinish \<and> p = None)"
proof -
  let ?ec = "\<lparr>Request = (Request c)\<lparr>Context := TODO\<rparr>\<rparr>"
  note started = span_started_iff [OF sp]
  have 1: "(\<exists>n. StartSpan n \<in> set es) \<longleftrightarrow> On cfg \<and> 0 < FloatInRange (tracesSampleRate cfg) 0 1"
    by (simp add: started FloatInRange_pos)
  have 2: "(\<forall>n. StartSpan n \<notin> set es) \<and> HubRecover v \<in> set es \<and> LoggerError v \<in> set es \<and> p = None"
    if on: "On cfg" and rate: "tracesSampleRate cfg \<le> 0" and v: "v \<noteq> NilValue"
      and fn: "\<forall>ec. fn ec = Some v"
  proof -
    from rate have norate: "\<not> 0 < tracesSampleRate cfg" by simp
    from spawned_of_closure_returns [OF sp closure_no_span [OF on norate]]
    have "es = bind_hub ?ec @ fst (run_task cfg ?ec fn)" and "p = None"
      by simp_all
    with started norate on v fn show ?thesis
      by (simp add: run_task_eq recoverPanic_Some)
  qed
  have 3: "count_list es SpanFinish = 1 \<and> last es = SpanFinish \<and> p = None"
    if span: "\<exists>n. StartSpan n \<in> set es"
      and loop: "\<forall>x. skip_loop re (skipTracesEndpoints cfg) (Path (Request c)) \<noteq> Inl x"
  proof -
    from span started have on: "On cfg" and rate: "0 < tracesSampleRate cfg" by simp_all
    from loop obtain skip where "skip_loop re (skipTracesEndpoints cfg) (Path (Request c)) = Inr skip"
      by (cases "skip_loop re (skipTracesEndpoints cfg) (Path (Request c))") auto
    from spawned_span_form [OF sp on rate this] obtain body where
      es: "es = bind_hub ?ec @ [StartSpan (TransactionName (Request c))] @
              (if skip then [SetSampledFalse] else []) @
              [EcSetRequest (span_request ?ec), Called] @ body @ [ReleaseContext, SpanFinish]"
      and body: "body = fst (recoverPanic cfg (Some \<lparr>Request = span_request ?ec\<rparr>)
                     (fn \<lparr>Request = span_request ?ec\<rparr>))"
      and p: "p = None"
      by blast
    have "count_list body SpanFinish = 0"
      by (simp add: body SpanFinish_notin_recoverPanic)
    with p show ?thesis
      by (simp add: es bind_hub_def)
  qed
  from 1 2 3 show ?thesis by blast
qed


theorem ExecuteWithContext_span_witness:
  "spawned (ExecuteWithContext \<lparr>On = True, tracesSampleRate = 0, skipTracesEndpoints = []\<rparr>
      (\<lambda>p. None) (\<lambda>n. (None, None)) (\<lambda>ec. Some (StringValue ''boom''))
      \<lparr>Request = \<lparr>Method = ''GET'', Path = ''/orders'', Context = TODO\<rparr>\<rparr> []) =
     Some (Goroutine,
       ([CurrentHubClone, ScopeSetRequest \<lparr>Method = ''GET'', Path = ''/orders'', Context = TODO\<rparr>,
         SetHubOnContext, EcSet ''sentry'', Called,
         CurrentHubClone, ScopeSetRequest \<lparr>Method = ''GET'', Path = ''/orders'', Context = TODO\<rparr>,
         ConfigureScopeSetTag ''goroutine'' ''true'', HubRecover (StringValue ''boom''),
         LoggerError (StringValue ''boom''), ReleaseContext], None))
   \<and> HubRecover (StringValue ''boom'') \<in> set
        [CurrentHubClone, ScopeSetRequest \<lparr>Method = ''GET'', Path = ''/orders'', Context = TODO\<rparr>,
         SetHubOnContext, EcSet ''sentry'', Called,
         CurrentHubClone, ScopeSetRequest \<lparr>Method = ''GET'', Path = ''/orders'', Context = TODO\<rparr>,
         ConfigureScopeSetTag ''goroutine'' ''true'', HubRecover (StringValue ''boom''),
         LoggerError (StringValue ''boom''), ReleaseContext]
   \<and> spawned (ExecuteWithContext \<lparr>On = True, tracesSampleRate = 1 / 5, skipTracesEndpoints = []\<rparr>
      (\<lambda>p. None) (\<lambda>n. (None, None)) (\<lambda>ec. None)
      \<lparr>Request = \<lparr>Method = ''GET'', Path = ''/orders'', Context = TODO\<rparr>\<rparr> []) =
     Some (Goroutine,
       ([CurrentHubClone, ScopeSetRequest \<lparr>Method = ''GET'', Path = ''/orders'', Context = TODO\<rparr>,
         SetHubOnContext, EcSet ''sentry'', StartSpan ''GET /orders ASYNC'',
         EcSetRequest \<lparr>Method = ''GET'', Path = ''/orders'', Context = WithSpan (WithHub TODO)\<rparr>,
         Called, ReleaseContext, SpanFinish], None))
   \<and> count_list
        [CurrentHubClone, ScopeSetRequest \<lparr>Method = ''GET'', Path = ''/orders'', Context = TODO\<rparr>,
         SetHubOnContext, EcSet ''sentry'', StartSpan ''GET /orders ASYNC'',
         EcSetRequest \<lparr>Method = ''GET'', Path = ''/orders'', Context = WithSpan (WithHub TODO)\<rparr>,
         Called, ReleaseContext, SpanFinish] SpanFinish = 1"
proof -
  let ?c = "\<lparr>Request = \<lparr>Method = ''GET'', Path = ''/orders'', Context = TODO\<rparr>\<rparr>"
  let ?G = "\<lambda>n :: string. (None :: pool option, None :: string option)"
  let ?cfg0 = "\<lparr>On = True, tracesSampleRate = 0, skipTracesEndpoints = []\<rparr>"
  let ?cfg1 = "\<lparr>On = True, tracesSampleRate = 1 / 5, skipTracesEndpoints = []\<rparr>"
  let ?es0 = "[CurrentHubClone, ScopeSetRequest \<lparr>Method = ''GET'', Path = ''/orders'', Context = TODO\<rparr>,
         SetHubOnContext, EcSet ''sentry'', Called,
         CurrentHubClone, ScopeSetRequest \<lparr>Method = ''GET'', Path = ''/orders'', Context = TODO\<rparr>,
         ConfigureScopeSetTag ''goroutine'' ''true'', HubRecover (StringValue ''boom''),
         LoggerError (StringValue ''boom''), ReleaseContext]"
  let ?es1 = "[CurrentHubClone, ScopeSetRequest \<lparr>Method = ''GET'', Path = ''/orders'', Context = TODO\<rparr>,
         SetHubOnContext, EcSet ''sentry'', StartSpan ''GET /orders ASYNC'',
         EcSetRequest \<lparr>Method = ''GET'', Path = ''/orders'', Context = WithSpan (WithHub TODO)\<rparr>,
         Called, ReleaseContext, SpanFinish]"
  have sp0: "spawned (ExecuteWithContext ?cfg0 (\<lambda>p. None) ?G (\<lambda>ec. Some (StringValue ''boom'')) ?c []) =
      Some (Goroutine, (?es0, None))"
    by (simp add: async_defs)
  have sp1: "spawned (ExecuteWithContext ?cfg1 (\<lambda>p. None) ?G (\<lambda>ec. None) ?c []) =
      Some (Goroutine, (?es1, None))"
    by (simp add: async_defs)
  have a: "HubRecover (StringValue ''boom'') \<in> set ?es0"
    using ExecuteWithContext_span [OF sp0, where v = "StringValue ''boom''"] by simp
  have b: "count_list ?es1 SpanFinish = 1"
    using ExecuteWithContext_span [OF sp1] by simp
  from sp0 sp1 a b show ?thesis by blast
qed

text \<open>
  C7 as stated fails in three places. When a found pool rejects the closure, the
  closure never runs and no span is started although reporting is on and the rate is 1.
  With reporting on and rate 0, a unit of work that panics with nil is recovered without
  any report. With a skip pattern that does not parse, the span is started and
  \<open>regexp.MustCompile\<close> panics before \<open>span.Finish()\<close> is deferred: the span is
  never finished.
\<close>

theorem ExecuteWithContext_span_not_always:
  "ExecuteWithContext \<lparr>On = True, tracesSampleRate = 1, skipTracesEndpoints = []\<rparr>
      (\<lambda>p. None) (\<lambda>n. (Some \<lparr>SubmitError = Some ''pool overload''\<rparr>, None)) (\<lambda>ec. None)
      \<lparr>Request = \<lparr>Method = ''GET'', Path = ''/orders'', Context = TODO\<rparr>\<rparr> [''p''] =
     \<lparr>caller = ([AcquireContext, Reset \<lparr>Method = ''GET'', Path = ''/orders'', Context = TODO\<rparr>,
                 Submit, CurrentHubClone, ConfigureScopeSetTag ''goroutine'' ''true'',
                 HubRecover (ErrorValue ''pool overload''), LoggerError (ErrorValue ''pool overload'')],
                None),
      spawned = None\<rparr>
   \<and> spawned (ExecuteWithContext \<lparr>On = True, tracesSampleRate = 0, skipTracesEndpoints = []\<rparr>
      (\<lambda>p. None) (\<lambda>n. (None, None)) (\<lambda>ec. Some NilValue)
      \<lparr>Request = \<lparr>Method = ''GET'', Path = ''/orders'', Context = TODO\<rparr>\<rparr> []) =
     Some (Goroutine,
       ([CurrentHubClone, ScopeSetRequest \<lparr>Method = ''GET'', Path = ''/orders'', Context = TODO\<rparr>,
         SetHubOnContext, EcSet ''sentry'', Called, ReleaseContext], None))
   \<and> spawned (ExecuteWithContext \<lparr>On = True, tracesSampleRate = 1, skipTracesEndpoints = [''('']\<rparr>
      (\<lambda>p. None) (\<lambda>n. (None, None)) (\<lambda>ec. None)
      \<lparr>Request = \<lparr>Method = ''GET'', Path = ''/orders'', Context = TODO\<rparr>\<rparr> []) =
     Some (Goroutine,
       ([CurrentHubClone, ScopeSetRequest \<lparr>Method = ''GET'', Path = ''/orders'', Context = TODO\<rparr>,
         SetHubOnContext, EcSet ''sentry'', StartSpan ''GET /orders ASYNC'',
         CurrentHubClone, ConfigureScopeSetTag ''goroutine'' ''true'', HubRecover (RegexpPanic ''(''),
         LoggerError (RegexpPanic ''('')], None))"
  by (simp add: async_defs)

section \<open>The skip patterns\<close>

lemma SetSampledFalse_notin_recoverPanic: "SetSampledFalse \<notin> set (fst (recoverPanic cfg c p))"
  by (auto dest: recoverPanic_events)

lemma skip_loop_True_iff:
  "skip_loop re ps path = Inr True \<longleftrightarrow>
   (\<exists>xs pat ys m. ps = xs @ pat # ys \<and> (\<forall>x\<in>set xs. \<exists>m'. re x = Some m' \<and> \<not> m' path)
      \<and> re pat = Some m \<and> m path)"
  (is "?L ps \<longleftrightarrow> ?R ps")
proof
  assume "?R ps"
  then show "?L ps" by (auto simp: skip_loop_first_match)
next
  assume "?L ps"
  then show "?R ps"
  proof (induction ps)
    case Nil
    then show ?case by simp
  next
    case (Cons p ps)
    show ?case
    proof (cases "re p")
      case None
      with Cons.prems show ?thesis by simp
    next
      case (Some m)
      show ?thesis
      proof (cases "m path")
        case True
        with Some have "p # ps = [] @ p # ps \<and> (\<forall>x\<in>set []. \<exists>m'. re x = Some m' \<and> \<not> m' path)
            \<and> re p = Some m \<and> m path"
          by simp
        then show ?thesis by blast
      next
        case False
        with Some Cons.prems have "?L ps" by simp
        from Cons.IH [OF this] obtain xs pat ys m' where
          "ps = xs @ pat # ys" "\<forall>x\<in>set xs. \<exists>m'. re x = Some m' \<and> \<not> m' path"
          "re pat = Some m'" "m' path"
          by blast
        with Some False have "p # ps = (p # xs) @ pat # ys
            \<and> (\<forall>x\<in>set (p # xs). \<exists>m'. re x = Some m' \<and> \<not> m' path)
            \<and> re pat = Some m' \<and> m' path"
          by simp
        then show ?thesis by blast
      qed
    qed
  qed
qed

text \<open>
  C8, as the code has it. When a span is started, the loop compiles and matches the
  skip patterns in order and stops at the first match: the span is marked not-sampled
  exactly when some pattern matches the path and every pattern before it parses and
  does not match (the patterns after it are not looked at), and it is marked at most
  once. When every configured pattern parses, the span is marked exactly when the path
  matches at least one of them, and the events of a skipped path are those of any other
  path with \<open>SetSampledFalse\<close> added after \<open>StartSpan\<close>: the span is started and
  finished all the same.
\<close>

theorem ExecuteWithContext_skip_sampling:
  assumes sp: "spawned (ExecuteWithContext cfg re GetPool fn c poolName) = Some (t, (es, p))"
    and span: "StartSpan n \<in> set es"
  shows "(SetSampledFalse \<in> set es \<longleftrightarrow>
            (\<exists>xs pat ys m.
               skipTracesEndpoints cfg = xs @ pat # ys
             \<and> (\<forall>x\<in>set xs. \<exists>m'. re x = Some m' \<and> \<not> m' (Path (Request c)))
             \<and> re pat = Some m \<and> m (Path (Request c))))
       \<and> count_list es SetSampledFalse \<le> 1
       \<and> ((\<forall>pat\<in>set (skipTracesEndpoints cfg). re pat \<noteq> None) \<longrightarrow>
            (SetSampledFalse \<in> set es \<longleftrightarrow>
               (\<exists>pat\<in>set (skipTracesEndpoints cfg). \<exists>m. re pat = Some m \<and> m (Path (Request c))))
          \<and> es = bind_hub \<lparr>Request = (Request c)\<lparr>Context := TODO\<rparr>\<rparr> @
                 [StartSpan (TransactionName (Request c))] @
                 (if \<exists>pat\<in>set (skipTracesEndpoints cfg). \<exists>m. re pat = Some m \<and> m (Path (Request c))
                  then [SetSampledFalse] else []) @
                 [EcSetRequest (span_request \<lparr>Request = (Request c)\<lparr>Context := TODO\<rparr>\<rparr>), Called] @
                 fst (recoverPanic cfg
                        (Some \<lparr>Request = span_request \<lparr>Request = (Request c)\<lparr>Context := TODO\<rparr>\<rparr>\<rparr>)
                        (fn \<lparr>Request = span_request \<lparr>Request = (Request c)\<lparr>Context := TODO\<rparr>\<rparr>\<rparr>)) @
                 [ReleaseContext, SpanFinish])"
proof -
  let ?ec = "\<lparr>Request = (Request c)\<lparr>Context := TODO\<rparr>\<rparr>"
  let ?body = "fst (recoverPanic cfg (Some \<lparr>Request = span_request ?ec\<rparr>)
                  (fn \<lparr>Request = span_request ?ec\<rparr>))"
  let ?loop = "skip_loop re (skipTracesEndpoints cfg) (Path (Request c))"
  from span span_started_iff [OF sp] have on: "On cfg" and rate: "0 < tracesSampleRate cfg"
    by auto
  have form: "es = bind_hub ?ec @ [StartSpan (TransactionName (Request c))] @
                 (if skip then [SetSampledFalse] else []) @
                 [EcSetRequest (span_request ?ec), Called] @ ?body @ [ReleaseContext, SpanFinish]"
    if "?loop = Inr skip" for skip
    using spawned_span_form [OF sp on rate that] by simp
  have marked: "SetSampledFalse \<in> set es \<longleftrightarrow> ?loop = Inr True"
    and once: "count_list es SetSampledFalse \<le> 1"
  proof -
    have body: "SetSampledFalse \<notin> set ?body" "count_list ?body SetSampledFalse = 0"
      by (simp_all add: SetSampledFalse_notin_recoverPanic)
    show "SetSampledFalse \<in> set es \<longleftrightarrow> ?loop = Inr True"
      and "count_list es SetSampledFalse \<le> 1"
    proof (atomize (full), cases ?loop)
      case (Inl v)
      then have "skip_loop re (skipTracesEndpoints cfg) (Path (Request ?ec)) = Inl v"
        by simp
      from spawned_of_closure_panics [OF sp closure_span_panic [OF on rate this]] Inl
      show "(SetSampledFalse \<in> set es \<longleftrightarrow> ?loop = Inr True) \<and> count_list es SetSampledFalse \<le> 1"
        by (auto simp: bind_hub_def SetSampledFalse_notin_recoverPanic)
    next
      case (Inr skip)
      from form [OF Inr] body Inr
      show "(SetSampledFalse \<in> set es \<longleftrightarrow> ?loop = Inr True) \<and> count_list es SetSampledFalse \<le> 1"
        by (simp add: bind_hub_def)
    qed
  qed
  have 1: "SetSampledFalse \<in> set es \<longleftrightarrow>
            (\<exists>xs pat ys m.
               skipTracesEndpoints cfg = xs @ pat # ys
             \<and> (\<forall>x\<in>set xs. \<exists>m'. re x = Some m' \<and> \<not> m' (Path (Request c)))
             \<and> re pat = Some m \<and> m (Path (Request c)))"
    by (simp only: marked skip_loop_True_iff)
  have 2: "(SetSampledFalse \<in> set es \<longleftrightarrow>
               (\<exists>pat\<in>set (skipTracesEndpoints cfg). \<exists>m. re pat = Some m \<and> m (Path (Request c))))
          \<and> es = bind_hub ?ec @ [StartSpan (TransactionName (Request c))] @
                 (if \<exists>pat\<in>set (skipTracesEndpoints cfg). \<exists>m. re pat = Some m \<and> m (Path (Request c))
                  then [SetSampledFalse] else []) @
                 [EcSetRequest (span_request ?ec), Called] @ ?body @ [ReleaseContext, SpanFinish]"
    if valid: "\<forall>pat\<in>set (skipTracesEndpoints cfg). re pat \<noteq> None"
    using marked form [OF skip_loop_valid [OF valid]] skip_loop_valid [OF valid, of "Path (Request c)"]
    by simp
  from 1 once 2 show ?thesis by blast
qed


theorem ExecuteWithContext_skip_sampling_witness:
  "spawned (ExecuteWithContext \<lparr>On = True, tracesSampleRate = 1, skipTracesEndpoints = [''/ping'', ''^/$'']\<rparr>
      (\<lambda>pat. if pat = ''/ping'' then Some (\<lambda>path. path = ''/ping'')
             else if pat = ''^/$'' then Some (\<lambda>path. path = ''/'') else None)
      (\<lambda>n. (None, None)) (\<lambda>ec. None)
      \<lparr>Request = \<lparr>Method = ''GET'', Path = ''/ping'', Context = TODO\<rparr>\<rparr> []) =
     Some (Goroutine,
       ([CurrentHubClone, ScopeSetRequest \<lparr>Method = ''GET'', Path = ''/ping'', Context = TODO\<rparr>,
         SetHubOnContext, EcSet ''sentry'', StartSpan ''GET /ping ASYNC'', SetSampledFalse,
         EcSetRequest \<lparr>Method = ''GET'', Path = ''/ping'', Context = WithSpan (WithHub TODO)\<rparr>,
         Called, ReleaseContext, SpanFinish], None))
   \<and> SetSampledFalse \<in> set
        [CurrentHubClone, ScopeSetRequest \<lparr>Method = ''GET'', Path = ''/ping'', Context = TODO\<rparr>,
         SetHubOnContext, EcSet ''sentry'', StartSpan ''GET /ping ASYNC'', SetSampledFalse,
         EcSetRequest \<lparr>Method = ''GET'', Path = ''/ping'', Context = WithSpan (WithHub TODO)\<rparr>,
         Called, ReleaseContext, SpanFinish]
   \<and> (\<exists>xs pat ys m.
         [''/ping'', ''^/$''] = xs @ pat # ys
       \<and> (if pat = ''/ping'' then Some (\<lambda>path. path = ''/ping'')
           else if pat = ''^/$'' then Some (\<lambda>path. path = ''/'') else None) = Some m
       \<and> m ''/ping'')"
proof -
  let ?cfg = "\<lparr>On = True, tracesSampleRate = 1, skipTracesEndpoints = [''/ping'', ''^/$'']\<rparr>"
  let ?re = "\<lambda>pat. if pat = ''/ping'' then Some (\<lambda>path. path = ''/ping'')
             else if pat = ''^/$'' then Some (\<lambda>path. path = ''/'') else None"
  let ?c = "\<lparr>Request = \<lparr>Method = ''GET'', Path = ''/ping'', Context = TODO\<rparr>\<rparr>"
  let ?es = "[CurrentHubClone, ScopeSetRequest \<lparr>Method = ''GET'', Path = ''/ping'', Context = TODO\<rparr>,
         SetHubOnContext, EcSet ''sentry'', StartSpan ''GET /ping ASYNC'', SetSampledFalse,
         EcSetRequest \<lparr>Method = ''GET'', Path = ''/ping'', Context = WithSpan (WithHub TODO)\<rparr>,
         Called, ReleaseContext, SpanFinish]"
  have sp: "spawned (ExecuteWithContext ?cfg ?re (\<lambda>n. (None, None)) (\<lambda>ec. None) ?c []) =
      Some (Goroutine, (?es, None))"
    by (simp add: async_defs)
  have span: "StartSpan ''GET /ping ASYNC'' \<in> set ?es" by simp
  have valid: "\<forall>pat\<in>set (skipTracesEndpoints ?cfg). ?re pat \<noteq> None" by simp
  have pings: "\<exists>pat\<in>set (skipTracesEndpoints ?cfg). \<exists>m. ?re pat = Some m \<and> m (Path (Request ?c))"
    by simp
  note inst = ExecuteWithContext_skip_sampling [OF sp span]
  from inst valid pings have a: "SetSampledFalse \<in> set ?es"
    by blast
  with inst have "\<exists>xs pat ys m.
               skipTracesEndpoints ?cfg = xs @ pat # ys
             \<and> (\<forall>x\<in>set xs. \<exists>m'. ?re x = Some m' \<and> \<not> m' (Path (Request ?c)))
             \<and> ?re pat = Some m \<and> m (Path (Request ?c))"
    by blast
  then have b: "\<exists>xs pat ys m. [''/ping'', ''^/$''] = xs @ pat # ys \<and> ?re pat = Some m \<and> m ''/ping''"
    by (simp only: config.simps request.simps echo_context.simps) blast
  from sp a b show ?thesis by blast
qed

text \<open>
  C8 as stated fails when a pattern that does not parse stands before the first match:
  \<open>regexp.MustCompile\<close> panics there, and the span is started but not marked,
  although the path matches the configured pattern \<open>/ping\<close>.
\<close>

theorem ExecuteWithContext_skip_sampling_invalid_pattern:
  "spawned (ExecuteWithContext \<lparr>On = True, tracesSampleRate = 1, skipTracesEndpoints = [''('', ''/ping'']\<rparr>
      (\<lambda>pat. if pat = ''/ping'' then Some (\<lambda>path. path = ''/ping'') else None)
      (\<lambda>n. (None, None)) (\<lambda>ec. None)
      \<lparr>Request = \<lparr>Method = ''GET'', Path = ''/ping'', Context = TODO\<rparr>\<rparr> []) =
     Some (Goroutine,
       ([CurrentHubClone, ScopeSetRequest \<lparr>Method = ''GET'', Path = ''/ping'', Context = TODO\<rparr>,
         SetHubOnContext, EcSet ''sentry'', StartSpan ''GET /ping ASYNC'',
         CurrentHubClone, ConfigureScopeSetTag ''goroutine'' ''true'', HubRecover (RegexpPanic ''(''),
         LoggerError (RegexpPanic ''('')], None))
   \<and> (\<exists>pat\<in>set [''('', ''/ping''].
        \<exists>m. (if pat = ''/ping'' then Some (\<lambda>path. path = ''/ping'') else None) = Some m
          \<and> m ''/ping'')"
  by (simp add: async_defs)

end
